theory Spec2Isabelle
  imports Main
begin

section \<open>XML element trees\<close>

text \<open>
  An lxml element as far as the diagram code looks at it: its qualified tag, its
  \<open>.text\<close> (\<open>None\<close> for an element without text) and its child elements in
  document order.
\<close>

datatype elem = Elem (tag: string) (etext: "string option") (children: "elem list")

text \<open>
  \<open>el.findall(".//" + qn("a:t"))\<close>: every descendant of \<open>el\<close> (never \<open>el\<close> itself)
  carrying the tag, in document order. \<open>iter_tag\<close> is the pre-order walk of one
  subtree, the subtree's root included.
\<close>

fun iter_tag :: "string \<Rightarrow> elem \<Rightarrow> elem list" where
  "iter_tag tg (Elem g tx cs) =
     (if g = tg then [Elem g tx cs] else []) @ concat (map (iter_tag tg) cs)"

definition findall :: "string \<Rightarrow> elem \<Rightarrow> elem list" where
  "findall tg el = concat (map (iter_tag tg) (children el))"

definition a_t :: string where
  "a_t = ''a:t''"

text \<open>
  Assigning \<open>text_elements[idx].text = ws[idx]\<close> for the leading elements of a
  \<open>findall\<close> result mutates the tree in place. The model rebuilds the tree in the
  same pre-order walk, handing the next pending text to each element that carries the
  tag; once the pending texts are used up the remaining elements keep their text.
  Both results are returned: the rebuilt tree and the texts still pending.
\<close>

fun assign_elem :: "string \<Rightarrow> string list \<Rightarrow> elem \<Rightarrow> elem \<times> string list"
  and assign_forest :: "string \<Rightarrow> string list \<Rightarrow> elem list \<Rightarrow> elem list \<times> string list"
where
  "assign_elem tg ws (Elem g tx cs) =
     (if g = tg then
        (case ws of
           [] \<Rightarrow> (Elem g tx cs, [])
         | w # ws' \<Rightarrow>
             (case assign_forest tg ws' cs of (cs', r) \<Rightarrow> (Elem g (Some w) cs', r)))
      else
        (case assign_forest tg ws cs of (cs', r) \<Rightarrow> (Elem g tx cs', r)))"
| "assign_forest tg ws [] = ([], ws)"
| "assign_forest tg ws (e # es) =
     (case assign_elem tg ws e of (e', r) \<Rightarrow>
        (case assign_forest tg r es of (es', r') \<Rightarrow> (e' # es', r')))"

definition assign_texts :: "string \<Rightarrow> string list \<Rightarrow> elem \<Rightarrow> elem" where
  "assign_texts tg ws el =
     Elem (tag el) (etext el) (fst (assign_forest tg ws (children el)))"

section \<open>Diagram points (\<open>pptx.oxml.diagram\<close>)\<close>

text \<open>
  \<open>CT_DiagramPoint\<close>: the optional attributes \<open>modelId\<close> and \<open>type\<close> and the optional
  \<open>dgm:t\<close> child, the text container.
\<close>

record CT_DiagramPoint =
  modelId :: "string option"
  type :: "string option"
  t :: "elem option"

text \<open>
  The \<open>text\<close> getter: \<open>""\<close> without a text container, otherwise the \<open>.text\<close> of
  every \<open>a:t\<close> below it joined in order, skipping the elements whose text is \<open>None\<close> or
  empty.
\<close>

definition truthy_text :: "string option \<Rightarrow> bool" where
  "truthy_text tx = (case tx of None \<Rightarrow> False | Some s \<Rightarrow> s \<noteq> [])"

definition join_texts :: "elem list \<Rightarrow> string" where
  "join_texts els =
     concat (map (\<lambda>el. case etext el of None \<Rightarrow> [] | Some s \<Rightarrow> s)
                 (filter (\<lambda>el. truthy_text (etext el)) els))"

definition CT_DiagramPoint_text :: "CT_DiagramPoint \<Rightarrow> string" where
  "CT_DiagramPoint_text pt =
     (case t pt of
        None \<Rightarrow> ''''
      | Some te \<Rightarrow> join_texts (findall a_t te))"

text \<open>
  The \<open>text\<close> setter: nothing without a text container, nothing when the container
  holds no \<open>a:t\<close>; otherwise the first \<open>a:t\<close> receives the value and each later one
  the empty string.
\<close>

definition CT_DiagramPoint_set_text :: "CT_DiagramPoint \<Rightarrow> string \<Rightarrow> CT_DiagramPoint" where
  "CT_DiagramPoint_set_text pt v =
     (case t pt of
        None \<Rightarrow> pt
      | Some te \<Rightarrow>
          (case findall a_t te of
             [] \<Rightarrow> pt
           | el0 # els \<Rightarrow>
               pt\<lparr>t := Some (assign_texts a_t (v # map (\<lambda>_. '''') els) te)\<rparr>))"

section \<open>Node collection (\<open>pptx.shapes.smartart\<close>)\<close>

text \<open>
  \<open>_SmartArtNodes.__iter__\<close> walks the \<open>dgm:pt\<close> children and yields a node for each
  whose \<open>type\<close> is not in \<open>("pres", "parTrans", "sibTrans")\<close>; a point without the
  attribute has \<open>type\<close> \<open>None\<close>, which is not in the tuple.
\<close>

definition skipped_types :: "string list" where
  "skipped_types = [''pres'', ''parTrans'', ''sibTrans'']"

fun py_in :: "string option \<Rightarrow> string list \<Rightarrow> bool" where
  "py_in x [] = False"
| "py_in x (y # ys) = (if x = Some y then True else py_in x ys)"

fun SmartArtNodes_iter :: "CT_DiagramPoint list \<Rightarrow> CT_DiagramPoint list" where
  "SmartArtNodes_iter [] = []"
| "SmartArtNodes_iter (pt # pts) =
     (if \<not> py_in (type pt) skipped_types then pt # SmartArtNodes_iter pts
      else SmartArtNodes_iter pts)"

text \<open>\<open>__len__\<close> is \<open>sum(1 for _ in self)\<close>: one is added for every node the iteration yields.\<close>

fun py_sum_ones :: "'a list \<Rightarrow> nat \<Rightarrow> nat" where
  "py_sum_ones [] acc = acc"
| "py_sum_ones (x # xs) acc = py_sum_ones xs (acc + 1)"

definition SmartArtNodes_len :: "CT_DiagramPoint list \<Rightarrow> nat" where
  "SmartArtNodes_len pts = py_sum_ones (SmartArtNodes_iter pts) 0"

text \<open>
  \<open>SmartArt.iter_text\<close> reads the text of every node of the collection and yields
  it when it is truthy, that is non-empty; \<open>text_content\<close> is the list of what it yields.
\<close>

fun iter_text_of :: "CT_DiagramPoint list \<Rightarrow> string list" where
  "iter_text_of [] = []"
| "iter_text_of (pt # pts) =
     (let text = CT_DiagramPoint_text pt
      in if text \<noteq> [] then text # iter_text_of pts else iter_text_of pts)"

section \<open>Parts and relationships\<close>

text \<open>
  The parts a relationship can lead to: a \<open>DiagramDrawingPart\<close> with its root element,
  or a part of any other class. Parts are shared objects, so they live in a store
  addressed by part identity, and a relationship names its target by that identity.
\<close>

datatype part = DiagramDrawingPart elem | OtherPart

type_synonym part_store = "nat \<Rightarrow> part"

record rel =
  reltype :: string
  target_part :: nat

record slide_part =
  rels :: "rel list"

text \<open>
  Modelled from the spec: \<open>RT.DIAGRAM_DRAWING\<close> of \<open>pptx.opc.constants\<close>, the reserved
  relationship type under which a drawing part is related to the part owning the
  diagram; only equality with it is used.
\<close>

definition RT_DIAGRAM_DRAWING :: string where
  "RT_DIAGRAM_DRAWING = ''http://schemas.microsoft.com/office/2007/relationships/diagramDrawing''"

text \<open>
  \<open>DiagramDrawingPart.update_all_text_elements\<close>: the \<open>idx\<close>-th \<open>a:t\<close> of the drawing
  receives \<open>text_list[idx]\<close> while \<open>idx < len(text_list)\<close>.
\<close>

definition update_all_text_elements :: "elem \<Rightarrow> string list \<Rightarrow> elem" where
  "update_all_text_elements root text_list = assign_texts a_t text_list root"

text \<open>
  An object on a chain of \<open>_parent\<close> references. The walk in \<open>_sync_drawing_part\<close>
  asks of it whether it is truthy (an object with a \<open>__len__\<close> of 0 is not) and
  whether \<open>hasattr(parent, 'part')\<close> holds, and then reads the part.
\<close>

datatype proxy = Proxy (truthy: bool) (part_attr: "slide_part option")

text \<open>
  A \<open>SmartArt\<close>: the \<open>dgm:ptLst\<close> of its data model and its chain of parents, nearest
  first; the chain ends where \<open>_parent\<close> is \<open>None\<close> or missing.
\<close>

record SmartArt =
  ptLst :: "CT_DiagramPoint list"
  parents :: "proxy list"

definition SmartArt_text_content :: "SmartArt \<Rightarrow> string list" where
  "SmartArt_text_content sa = iter_text_of (SmartArtNodes_iter (ptLst sa))"

text \<open>
  The \<open>while parent and not hasattr(parent, 'part')\<close> loop of \<open>_sync_drawing_part\<close>
  and the test after it: the part of the first parent exposing one, or \<open>None\<close> when the
  chain ends or meets a falsy parent first.
\<close>

fun first_with_part :: "proxy list \<Rightarrow> slide_part option" where
  "first_with_part [] = None"
| "first_with_part (p # ps) =
     (if \<not> truthy p then None
      else (case part_attr p of
              Some sp \<Rightarrow> Some sp
            | None \<Rightarrow> first_with_part ps))"

text \<open>The \<open>for rel in drawing_rels\<close> loop, the store threaded through it.\<close>

fun update_drawing_parts :: "rel list \<Rightarrow> string list \<Rightarrow> part_store \<Rightarrow> part_store" where
  "update_drawing_parts [] texts st = st"
| "update_drawing_parts (r # rs) texts st =
     update_drawing_parts rs texts
       (case st (target_part r) of
          DiagramDrawingPart root \<Rightarrow>
            st(target_part r := DiagramDrawingPart (update_all_text_elements root texts))
        | OtherPart \<Rightarrow> st)"

definition drawing_rels_of :: "slide_part \<Rightarrow> rel list" where
  "drawing_rels_of sp = filter (\<lambda>r. reltype r = RT_DIAGRAM_DRAWING) (rels sp)"

definition sync_drawing_part :: "SmartArt \<Rightarrow> part_store \<Rightarrow> part_store" where
  "sync_drawing_part sa st =
     (case first_with_part (parents sa) of
        None \<Rightarrow> st
      | Some sp \<Rightarrow>
          (let drawing_rels = drawing_rels_of sp
           in if drawing_rels = [] then st
              else update_drawing_parts drawing_rels (SmartArt_text_content sa) st))"

text \<open>
  A \<open>SmartArtNode\<close> wraps one \<open>dgm:pt\<close> of the point list, named here by its position
  in \<open>ptLst\<close>. \<open>has_data_part\<close> is \<open>self._data_part is not None\<close>, and
  \<open>under_SmartArt\<close> says whether the walk up the node's own parents meets the
  \<open>SmartArt\<close>; both hold for the nodes \<open>SmartArt.nodes\<close> hands out.
\<close>

record SmartArtNode =
  pt_pos :: nat
  has_data_part :: bool
  under_SmartArt :: bool

definition SmartArtNode_text :: "SmartArt \<Rightarrow> SmartArtNode \<Rightarrow> string option" where
  "SmartArtNode_text sa nd =
     (if pt_pos nd < length (ptLst sa) then Some (CT_DiagramPoint_text (ptLst sa ! pt_pos nd))
      else None)"

text \<open>
  The \<open>text\<close> setter of a node: the point is written, then the drawing parts are
  synchronised when the node has a data part and a \<open>SmartArt\<close> above it. \<open>None\<close> is
  returned for a position that names no point, which no node of the source can hold.
\<close>

definition SmartArtNode_set_text ::
  "SmartArtNode \<Rightarrow> string \<Rightarrow> SmartArt \<times> part_store \<Rightarrow> (SmartArt \<times> part_store) option"
where
  "SmartArtNode_set_text nd v w =
     (case w of (sa, st) \<Rightarrow>
        if length (ptLst sa) \<le> pt_pos nd then None
        else
          (let sa' = sa\<lparr>ptLst :=
                          (ptLst sa)[pt_pos nd :=
                             CT_DiagramPoint_set_text (ptLst sa ! pt_pos nd) v]\<rparr>
           in if \<not> has_data_part nd then Some (sa', st)
              else if under_SmartArt nd then Some (sa', sync_drawing_part sa' st)
              else Some (sa', st)))"

section \<open>Chart categories (\<open>pptx.chart.category\<close>)\<close>

datatype py_error =
    IndexError
  | TypeError
  | ValueError_length_mismatch
  | ValueError_chart_part_not_available
  | Raised string

text \<open>
  Modelled from the spec: the \<open>c:pt\<close> element of \<open>pptx.oxml.chart\<close>, an
  (index, value-text) pair: its required \<open>idx\<close> attribute and the text of its \<open>c:v\<close>.
\<close>

record CT_pt =
  idx :: nat
  v_text :: string

text \<open>Modelled from the spec: a \<open>c:lvl\<close> element, the ordered sequence of its \<open>c:pt\<close> children.\<close>

record CT_Lvl =
  pt_lst :: "CT_pt list"

text \<open>
  Modelled from the spec: the \<open>c:cat\<close> element. \<open>multiLvlStrRef\<close> is \<open>None\<close> for a flat
  reference and otherwise holds the ordered level elements of the multi-level reference,
  which is what \<open>lvls\<close> returns; \<open>str_cache\<close> is the cached string list kept beside the
  leaf level.
\<close>

record CT_AxDataSource =
  multiLvlStrRef :: "CT_Lvl list option"
  str_cache :: "string list"

definition lvls :: "CT_AxDataSource \<Rightarrow> CT_Lvl list" where
  "lvls c = (case multiLvlStrRef c of None \<Rightarrow> [] | Some ls \<Rightarrow> ls)"

text \<open>
  Modelled from the spec: the plot element, as far as \<open>Categories\<close> reads it: its \<open>c:cat\<close>
  if any, the declared leaf count \<open>cat_pt_count\<close> and \<open>cat_pts\<close>, the leaf \<open>c:pt\<close>
  elements by position with \<open>None\<close> where a position has no element.
\<close>

record xChart =
  cat :: "CT_AxDataSource option"
  cat_pts :: "CT_pt option list"
  cat_pt_count :: nat

text \<open>
  \<open>Category(pt, idx)\<close>: a string carrying the label, \<open>""\<close> for a missing \<open>pt\<close>; its
  \<open>idx\<close> is that of the \<open>pt\<close>, or the \<open>idx\<close> argument when the \<open>pt\<close> is missing.
\<close>

datatype Category = Category (cpt: "CT_pt option") (idx_arg: "nat option")

definition Category_label :: "Category \<Rightarrow> string" where
  "Category_label c = (case cpt c of None \<Rightarrow> '''' | Some p \<Rightarrow> v_text p)"

definition Category_idx :: "Category \<Rightarrow> nat option" where
  "Category_idx c = (case cpt c of None \<Rightarrow> idx_arg c | Some p \<Rightarrow> Some (idx p))"

text \<open>
  \<open>CategoryLevel\<close> wraps a \<open>c:lvl\<close>: its length is the number of \<open>c:pt\<close>, item \<open>offset\<close>
  is \<open>Category(pt_lst[offset])\<close>, and iterating it yields the items in order.
\<close>

datatype CategoryLevel = CategoryLevel (lvl: CT_Lvl)

definition CategoryLevel_len :: "CategoryLevel \<Rightarrow> nat" where
  "CategoryLevel_len cl = length (pt_lst (lvl cl))"

definition CategoryLevel_getitem :: "CategoryLevel \<Rightarrow> nat \<Rightarrow> py_error + Category" where
  "CategoryLevel_getitem cl offset =
     (if offset < length (pt_lst (lvl cl))
      then Inr (Category (Some (pt_lst (lvl cl) ! offset)) None)
      else Inl IndexError)"

definition CategoryLevel_iter :: "CategoryLevel \<Rightarrow> Category list" where
  "CategoryLevel_iter cl = map (\<lambda>p. Category (Some p) None) (pt_lst (lvl cl))"

text \<open>
  \<open>Categories\<close>: the plot element and the chart part, if one was given. The chart part
  is known by the workbook it leads to.
\<close>

record 'wb ChartPart =
  chart_workbook :: 'wb

record 'wb Categories =
  xChart :: xChart
  chart_part :: "'wb ChartPart option"

fun enumerate_from :: "nat \<Rightarrow> 'a list \<Rightarrow> (nat \<times> 'a) list" where
  "enumerate_from n [] = []"
| "enumerate_from n (x # xs) = (n, x) # enumerate_from (Suc n) xs"

definition Categories_iter :: "xChart \<Rightarrow> Category list" where
  "Categories_iter xc =
     map (\<lambda>(i, pt). Category pt (Some i)) (enumerate_from 0 (cat_pts xc))"

definition Categories_len :: "xChart \<Rightarrow> nat" where
  "Categories_len xc = cat_pt_count xc"

definition depth :: "xChart \<Rightarrow> nat" where
  "depth xc =
     (case cat xc of
        None \<Rightarrow> 0
      | Some c \<Rightarrow>
          (case multiLvlStrRef c of
             None \<Rightarrow> 1
           | Some ref \<Rightarrow> length (lvls c)))"

definition levels :: "xChart \<Rightarrow> CategoryLevel list" where
  "levels xc =
     (case cat xc of
        None \<Rightarrow> []
      | Some c \<Rightarrow> map CategoryLevel (lvls c))"

text \<open>
  \<open>category.idx > leaf_node.idx\<close>: an order comparison of two integers; an \<open>idx\<close> that
  is \<open>None\<close> cannot be compared.
\<close>

fun idx_gt :: "nat option \<Rightarrow> nat option \<Rightarrow> py_error + bool" where
  "idx_gt (Some a) (Some b) = Inr (a > b)"
| "idx_gt a b = Inl TypeError"

text \<open>
  The \<open>for category in parent_level\<close> loop of \<open>_parentage\<close>: \<open>parent\<close> is the candidate
  so far, the list is what remains of the level, and the loop breaks at the first
  category whose \<open>idx\<close> exceeds that of the leaf.
\<close>

fun scan_parent :: "Category \<Rightarrow> Category list \<Rightarrow> Category \<Rightarrow> py_error + Category" where
  "scan_parent parent [] leaf_node = Inr parent"
| "scan_parent parent (category # rest) leaf_node =
     (case idx_gt (Category_idx category) (Category_idx leaf_node) of
        Inl e \<Rightarrow> Inl e
      | Inr b \<Rightarrow> (if b then Inr parent else scan_parent category rest leaf_node))"

fun parentage :: "Category list \<Rightarrow> CategoryLevel list \<Rightarrow> py_error + Category list" where
  "parentage categories [] = Inr categories"
| "parentage categories (parent_level # remaining_levels) =
     (if CategoryLevel_len parent_level = 0 then Inr categories
      else
        (case categories of
           [] \<Rightarrow> Inl IndexError
         | leaf_node # others \<Rightarrow>
             (case CategoryLevel_getitem parent_level 0 of
                Inl e \<Rightarrow> Inl e
              | Inr parent0 \<Rightarrow>
                  (case scan_parent parent0 (CategoryLevel_iter parent_level) leaf_node of
                     Inl e \<Rightarrow> Inl e
                   | Inr parent \<Rightarrow> parentage (categories @ [parent]) remaining_levels))))"

text \<open>Running a generator to its end: the values yielded, or the first error raised.\<close>

fun collect :: "(py_error + 'a) list \<Rightarrow> py_error + 'a list" where
  "collect [] = Inr []"
| "collect (Inl e # xs) = Inl e"
| "collect (Inr x # xs) = (case collect xs of Inl e \<Rightarrow> Inl e | Inr ys \<Rightarrow> Inr (x # ys))"

definition iter_flattened_categories :: "xChart \<Rightarrow> py_error + Category list list" where
  "iter_flattened_categories xc =
     (case levels xc of
        [] \<Rightarrow> Inr []
      | leaf_level # remaining_levels \<Rightarrow>
          collect (map (\<lambda>category. parentage [category] remaining_levels)
                       (CategoryLevel_iter leaf_level)))"

definition flattened_labels :: "xChart \<Rightarrow> py_error + string list list" where
  "flattened_labels xc =
     (case cat xc of
        None \<Rightarrow> Inr []
      | Some c \<Rightarrow>
          (case multiLvlStrRef c of
             None \<Rightarrow> Inr (map (\<lambda>category. [Category_label category]) (Categories_iter xc))
           | Some ref \<Rightarrow>
               (case iter_flattened_categories xc of
                  Inl e \<Rightarrow> Inl e
                | Inr flat_cats \<Rightarrow>
                    Inr (map (\<lambda>flat_cat. map Category_label (rev flat_cat)) flat_cats))))"

text \<open>
  \<open>update_all\<close>. The two collaborators are not part of this module and are parameters:
  \<open>update_categories\<close> of the chart workbook and \<open>update_str_cache\<close> of the \<open>c:cat\<close>
  element. Each returns the object as it left it, with the error it raised if any.
  The result is the error raised by the call, if any, and the collection as the call
  left it, so that a write made before an error stays visible.
\<close>

definition update_all ::
  "(string list \<Rightarrow> 'wb \<Rightarrow> py_error option \<times> 'wb) \<Rightarrow>
   (string list \<Rightarrow> CT_AxDataSource \<Rightarrow> py_error option \<times> CT_AxDataSource) \<Rightarrow>
   string list \<Rightarrow> 'wb Categories \<Rightarrow> py_error option \<times> 'wb Categories"
where
  "update_all update_categories update_str_cache new_categories cs =
     (let current_length = Categories_len (xChart cs)
      in if length new_categories \<noteq> current_length
         then (Some ValueError_length_mismatch, cs)
         else
           (case chart_part cs of
              None \<Rightarrow> (Some ValueError_chart_part_not_available, cs)
            | Some cp \<Rightarrow>
                (case update_categories new_categories (chart_workbook cp) of
                   (err, wb') \<Rightarrow>
                     (let cs1 = cs\<lparr>chart_part := Some (cp\<lparr>chart_workbook := wb'\<rparr>)\<rparr>
                      in case err of
                           Some e \<Rightarrow> (Some e, cs1)
                         | None \<Rightarrow>
                             (case cat (xChart cs1) of
                                None \<Rightarrow> (None, cs1)
                              | Some c \<Rightarrow>
                                  (case update_str_cache new_categories c of
                                     (err2, c') \<Rightarrow>
                                       (err2, cs1\<lparr>xChart := (xChart cs1)\<lparr>cat := Some c'\<rparr>\<rparr>)))))))"

section \<open>Notions of the specification\<close>

text \<open>
  The specification's positional overwrite of a cache target: cell \<open>i\<close> receives
  element \<open>i\<close> of the sequence for every index present in both, cells beyond the
  sequence keep their content, elements beyond the cells are dropped.
\<close>

fun overwrite_cells :: "string list \<Rightarrow> string option list \<Rightarrow> string option list" where
  "overwrite_cells [] cells = cells"
| "overwrite_cells (w # ws) [] = []"
| "overwrite_cells (w # ws) (c # cells) = Some w # overwrite_cells ws cells"

text \<open>The ordered text cells of an element: the \<open>.text\<close> of each \<open>a:t\<close> below it.\<close>

definition text_cells :: "elem \<Rightarrow> string option list" where
  "text_cells root = map etext (findall a_t root)"

text \<open>
  The specification's predecessor search in one level: scan the entries in order while
  their index does not exceed the leaf index; the last entry scanned is the parent, and
  the level's first entry is when none was.
\<close>

definition predecessor_scan :: "nat \<Rightarrow> CT_pt list \<Rightarrow> CT_pt" where
  "predecessor_scan leaf_index entries =
     (case takeWhile (\<lambda>e. idx e \<le> leaf_index) entries of
        [] \<Rightarrow> hd entries
      | x # xs \<Rightarrow> last (x # xs))"

text \<open>An entry of a level as \<open>CategoryLevel\<close> hands it out.\<close>

definition level_entry :: "CT_pt \<Rightarrow> Category" where
  "level_entry p = Category (Some p) None"

text \<open>
  The ancestors of a leaf: one parent from each higher level up to the first empty
  level, each found by the predecessor search for the leaf's own index.
\<close>

definition ancestor_chain :: "CT_pt \<Rightarrow> CT_Lvl list \<Rightarrow> Category list" where
  "ancestor_chain leaf higher =
     map (\<lambda>l. level_entry (predecessor_scan (idx leaf) (pt_lst l)))
         (takeWhile (\<lambda>l. pt_lst l \<noteq> []) higher)"

section \<open>Sample data\<close>

definition run_of :: "string \<Rightarrow> elem" where
  "run_of s = Elem ''a:r'' None [Elem ''a:t'' (Some s) []]"

definition container_of :: "string list \<Rightarrow> elem" where
  "container_of ss = Elem ''dgm:t'' None [Elem ''a:p'' None (map run_of ss)]"

definition point_of :: "string option \<Rightarrow> string list \<Rightarrow> CT_DiagramPoint" where
  "point_of ty ss = \<lparr>modelId = None, type = ty, t = Some (container_of ss)\<rparr>"

definition bare_point :: "string option \<Rightarrow> CT_DiagramPoint" where
  "bare_point ty = \<lparr>modelId = Some ''{id}'', type = ty, t = None\<rparr>"

definition drawing_of :: "string list \<Rightarrow> elem" where
  "drawing_of ss = Elem ''dsp:drawing'' None (map (\<lambda>s. Elem ''a:t'' (Some s) []) ss)"

definition sample_slide_part :: slide_part where
  "sample_slide_part =
     \<lparr>rels = [\<lparr>reltype = ''slideLayout'', target_part = 1\<rparr>,
              \<lparr>reltype = RT_DIAGRAM_DRAWING, target_part = 0\<rparr>]\<rparr>"

definition sample_store :: part_store where
  "sample_store = (\<lambda>k. OtherPart)(0 := DiagramDrawingPart (drawing_of [''a'', ''b'', ''c'']))"

definition sample_SmartArt :: SmartArt where
  "sample_SmartArt =
     \<lparr>ptLst = [point_of None [''A''], bare_point (Some ''pres''), point_of (Some ''node'') [''B'']],
      parents = [Proxy True None, Proxy True (Some sample_slide_part)]\<rparr>"

definition sample_node :: "nat \<Rightarrow> SmartArtNode" where
  "sample_node k = \<lparr>pt_pos = k, has_data_part = True, under_SmartArt = True\<rparr>"

definition entry :: "nat \<Rightarrow> string \<Rightarrow> CT_pt" where
  "entry i s = \<lparr>idx = i, v_text = s\<rparr>"

definition leaf_lvl :: CT_Lvl where
  "leaf_lvl = \<lparr>pt_lst = [entry 0 ''w'', entry 1 ''x'', entry 2 ''y'', entry 3 ''z'']\<rparr>"

definition parent_lvl :: CT_Lvl where
  "parent_lvl = \<lparr>pt_lst = [entry 0 ''A'', entry 2 ''B'']\<rparr>"

definition late_lvl :: CT_Lvl where
  "late_lvl = \<lparr>pt_lst = [entry 1 ''P'', entry 3 ''Q'']\<rparr>"

definition empty_lvl :: CT_Lvl where
  "empty_lvl = \<lparr>pt_lst = []\<rparr>"

definition chart_of :: "CT_Lvl list option \<Rightarrow> xChart" where
  "chart_of ref =
     \<lparr>cat = Some \<lparr>multiLvlStrRef = ref, str_cache = [''w'', ''x'', ''y'', ''z'']\<rparr>,
      cat_pts = [Some (entry 0 ''w''), Some (entry 1 ''x''), Some (entry 2 ''y''),
                 Some (entry 3 ''z'')],
      cat_pt_count = 4\<rparr>"

definition no_cat_chart :: xChart where
  "no_cat_chart = \<lparr>cat = None, cat_pts = [], cat_pt_count = 0\<rparr>"

definition set_workbook :: "string list \<Rightarrow> string list \<Rightarrow> py_error option \<times> string list" where
  "set_workbook labels wb = (None, labels)"

definition set_str_cache ::
  "string list \<Rightarrow> CT_AxDataSource \<Rightarrow> py_error option \<times> CT_AxDataSource" where
  "set_str_cache labels c = (None, c\<lparr>str_cache := labels\<rparr>)"

definition detached_categories :: "string list Categories" where
  "detached_categories = \<lparr>xChart = chart_of None, chart_part = None\<rparr>"

section \<open>Node collection\<close>

lemma py_in_skipped_types:
  "py_in x skipped_types \<longleftrightarrow> (x = Some ''pres'' \<or> x = Some ''parTrans'' \<or> x = Some ''sibTrans'')"
  by (simp add: skipped_types_def)

lemma py_sum_ones_length: "py_sum_ones xs acc = acc + length xs"
  by (induction xs arbitrary: acc) simp_all

lemma SmartArtNodes_iter_filter:
  "SmartArtNodes_iter pts = filter (\<lambda>pt. \<not> py_in (type pt) skipped_types) pts"
  by (induction pts) simp_all

text \<open>
  C5. Iterating a node collection yields the points in document order without those
  typed \<open>pres\<close>, \<open>parTrans\<close> or \<open>sibTrans\<close>, and the collection's length is the length of
  that iteration.
\<close>

theorem SmartArtNodes_iter_len:
  "SmartArtNodes_iter pts =
     filter (\<lambda>pt. type pt \<noteq> Some ''pres'' \<and> type pt \<noteq> Some ''parTrans''
                   \<and> type pt \<noteq> Some ''sibTrans'') pts
   \<and> SmartArtNodes_len pts = length (SmartArtNodes_iter pts)"
  by (simp add: SmartArtNodes_iter_filter py_in_skipped_types SmartArtNodes_len_def
      py_sum_ones_length)

theorem SmartArtNodes_iter_len_witness:
  "SmartArtNodes_iter
     [bare_point None, bare_point (Some ''pres''), bare_point (Some ''parTrans''),
      bare_point (Some ''sibTrans''), bare_point (Some ''doc'')]
     = [bare_point None, bare_point (Some ''doc'')]
   \<and> SmartArtNodes_len
     [bare_point None, bare_point (Some ''pres''), bare_point (Some ''parTrans''),
      bare_point (Some ''sibTrans''), bare_point (Some ''doc'')] = 2"
  using SmartArtNodes_iter_len [of
     "[bare_point None, bare_point (Some ''pres''), bare_point (Some ''parTrans''),
       bare_point (Some ''sibTrans''), bare_point (Some ''doc'')]"]
  by (simp add: bare_point_def)

section \<open>Depth and levels\<close>

text \<open>
  C6. \<open>depth\<close> is 0 without a category element, 1 when the category element holds a
  flat reference only, and otherwise the number of level elements.
\<close>

theorem depth_cases:
  "(cat xc = None \<longrightarrow> depth xc = 0)
   \<and> (\<forall>c. cat xc = Some c \<and> multiLvlStrRef c = None \<longrightarrow> depth xc = 1)
   \<and> (\<forall>c ref. cat xc = Some c \<and> multiLvlStrRef c = Some ref \<longrightarrow>
         depth xc = length (lvls c) \<and> lvls c = ref)"
  by (simp add: depth_def lvls_def)

theorem depth_cases_witness:
  "depth no_cat_chart = 0 \<and> depth (chart_of None) = 1
   \<and> depth (chart_of (Some [leaf_lvl, parent_lvl, late_lvl])) = 3"
  using depth_cases [of no_cat_chart] depth_cases [of "chart_of None"]
    depth_cases [of "chart_of (Some [leaf_lvl, parent_lvl, late_lvl])"]
  by (simp add: no_cat_chart_def chart_of_def)

text \<open>
  C9. A collection of depth 0 has no flattened labels and no levels.
\<close>

theorem depth_zero_empty:
  "depth xc = 0 \<Longrightarrow> flattened_labels xc = Inr [] \<and> levels xc = []"
  by (auto simp: depth_def flattened_labels_def levels_def iter_flattened_categories_def lvls_def
      split: option.splits)

theorem depth_zero_empty_witness:
  "depth no_cat_chart = 0 \<and> flattened_labels no_cat_chart = Inr [] \<and> levels no_cat_chart = []"
proof -
  have d: "depth no_cat_chart = 0" by (simp add: depth_def no_cat_chart_def)
  show ?thesis using d depth_zero_empty [OF d] by simp
qed

section \<open>Relabelling\<close>

text \<open>
  C3, amended. \<open>update_all\<close> with a label sequence of the wrong length raises the
  length error; with the right length and no chart part it raises the not-available
  error; with no chart part it raises one of the two, the length error when the length
  is wrong too, since the length is checked first; and whenever it raises one of the
  two, the collection, workbook and string cache included, is as it was.
\<close>

theorem update_all_errors:
  "(length new_categories \<noteq> Categories_len (xChart cs) \<longrightarrow>
      update_all uc us new_categories cs = (Some ValueError_length_mismatch, cs))
   \<and> (length new_categories = Categories_len (xChart cs) \<and> chart_part cs = None \<longrightarrow>
      update_all uc us new_categories cs = (Some ValueError_chart_part_not_available, cs))
   \<and> (chart_part cs = None \<longrightarrow>
      snd (update_all uc us new_categories cs) = cs
      \<and> fst (update_all uc us new_categories cs)
          \<in> {Some ValueError_length_mismatch, Some ValueError_chart_part_not_available})"
  by (simp add: update_all_def Let_def)

theorem update_all_errors_witness:
  "update_all set_workbook set_str_cache [''p'', ''q''] detached_categories
     = (Some ValueError_length_mismatch, detached_categories)
   \<and> update_all set_workbook set_str_cache [''p'', ''q'', ''r'', ''s''] detached_categories
     = (Some ValueError_chart_part_not_available, detached_categories)"
  using update_all_errors [of "[''p'', ''q'']" detached_categories set_workbook set_str_cache]
    update_all_errors [of "[''p'', ''q'', ''r'', ''s'']" detached_categories set_workbook
      set_str_cache]
  by (simp add: detached_categories_def chart_of_def Categories_len_def)

text \<open>
  With the not-available error for every call without a chart part the statement fails:
  a collection of four categories without a chart part, given two labels, raises the
  length error.
\<close>

theorem update_all_no_chart_part_counterexample:
  "chart_part detached_categories = None
   \<and> length [''p'', ''q''] \<noteq> Categories_len (xChart detached_categories)
   \<and> update_all set_workbook set_str_cache [''p'', ''q''] detached_categories
       = (Some ValueError_length_mismatch, detached_categories)
   \<and> fst (update_all set_workbook set_str_cache [''p'', ''q''] detached_categories)
       \<noteq> Some ValueError_chart_part_not_available"
  by (simp add: update_all_def Let_def detached_categories_def chart_of_def Categories_len_def)

section \<open>Parentage\<close>

lemma scan_parent_takeWhile:
  "scan_parent parent (map level_entry ps) (Category (Some lp) a) =
     Inr (case takeWhile (\<lambda>e. idx e \<le> idx lp) ps of
            [] \<Rightarrow> parent
          | x # xs \<Rightarrow> level_entry (last (x # xs)))"
proof (induction ps arbitrary: parent)
  case Nil
  show ?case by simp
next
  case (Cons p ps)
  show ?case
  proof (cases "idx lp < idx p")
    case True
    then show ?thesis by (simp add: Category_idx_def level_entry_def)
  next
    case False
    then have le: "idx p \<le> idx lp" by simp
    have "scan_parent parent (map level_entry (p # ps)) (Category (Some lp) a) =
          scan_parent (level_entry p) (map level_entry ps) (Category (Some lp) a)"
      using False by (simp add: Category_idx_def level_entry_def)
    also have "\<dots> = Inr (case takeWhile (\<lambda>e. idx e \<le> idx lp) ps of
            [] \<Rightarrow> level_entry p
          | x # xs \<Rightarrow> level_entry (last (x # xs)))"
      by (rule Cons.IH)
    also have "\<dots> = Inr (case takeWhile (\<lambda>e. idx e \<le> idx lp) (p # ps) of
            [] \<Rightarrow> parent
          | x # xs \<Rightarrow> level_entry (last (x # xs)))"
      using le by (simp split: list.splits)
    finally show ?thesis .
  qed
qed

lemma scan_parent_level:
  assumes "ps \<noteq> []"
  shows "scan_parent (level_entry (ps ! 0)) (map level_entry ps) (Category (Some lp) a) =
           Inr (level_entry (predecessor_scan (idx lp) ps))"
  using assms
  by (simp add: scan_parent_takeWhile predecessor_scan_def hd_conv_nth split: list.splits)

lemma parentage_chain:
  "parentage (Category (Some lp) a # others) (map CategoryLevel ls) =
     Inr ((Category (Some lp) a # others) @ ancestor_chain lp ls)"
proof (induction ls arbitrary: others)
  case Nil
  show ?case by (simp add: ancestor_chain_def)
next
  case (Cons l ls)
  show ?case
  proof (cases "pt_lst l = []")
    case True
    then show ?thesis by (simp add: ancestor_chain_def CategoryLevel_len_def)
  next
    case False
    have iter: "CategoryLevel_iter (CategoryLevel l) = map level_entry (pt_lst l)"
      by (simp add: CategoryLevel_iter_def level_entry_def)
    have get0: "CategoryLevel_getitem (CategoryLevel l) 0 = Inr (level_entry (pt_lst l ! 0))"
      using False by (simp add: CategoryLevel_getitem_def level_entry_def)
    have step: "parentage (Category (Some lp) a # others) (map CategoryLevel (l # ls)) =
          parentage (Category (Some lp) a # (others @ [level_entry (predecessor_scan (idx lp) (pt_lst l))]))
            (map CategoryLevel ls)"
      using False by (simp add: CategoryLevel_len_def get0 iter scan_parent_level)
    show ?thesis
      using False by (simp only: step Cons.IH) (simp add: ancestor_chain_def)
  qed
qed

lemma collect_map_Inr: "collect (map (\<lambda>x. Inr (f x)) xs) = Inr (map f xs)"
  by (induction xs) simp_all

text \<open>
  C2. In a hierarchical collection the chain of every leaf is the leaf followed by one
  parent from each higher level, and each parent is the result of the predecessor search
  for the index of the leaf itself: the last entry scanned before the first entry whose
  index exceeds the leaf index, or the level's first entry when the scan stops at once.
  The scan of a level is \<open>scan_parent\<close>, started from the level's first entry.
\<close>

theorem flattened_parent_is_predecessor:
  assumes "cat xc = Some c" and "multiLvlStrRef c = Some (leaf_level # higher)"
  shows "iter_flattened_categories xc =
           Inr (map (\<lambda>leaf. level_entry leaf # ancestor_chain leaf higher) (pt_lst leaf_level))
         \<and> (\<forall>(l::CT_Lvl) (leaf::CT_pt) a. pt_lst l \<noteq> [] \<longrightarrow>
              scan_parent (level_entry (pt_lst l ! 0)) (CategoryLevel_iter (CategoryLevel l))
                  (Category (Some leaf) a) =
                Inr (level_entry (predecessor_scan (idx leaf) (pt_lst l))))"
proof
  have lv: "levels xc = CategoryLevel leaf_level # map CategoryLevel higher"
    using assms by (simp add: levels_def lvls_def)
  have iter: "CategoryLevel_iter (CategoryLevel leaf_level) = map level_entry (pt_lst leaf_level)"
    by (simp add: CategoryLevel_iter_def level_entry_def)
  have "iter_flattened_categories xc =
          collect (map (\<lambda>category. parentage [category] (map CategoryLevel higher))
                       (map level_entry (pt_lst leaf_level)))"
    by (simp add: iter_flattened_categories_def lv iter)
  also have "\<dots> = collect (map (\<lambda>leaf. Inr (level_entry leaf # ancestor_chain leaf higher))
                       (pt_lst leaf_level))"
    by (simp add: level_entry_def parentage_chain comp_def)
  finally show "iter_flattened_categories xc =
           Inr (map (\<lambda>leaf. level_entry leaf # ancestor_chain leaf higher) (pt_lst leaf_level))"
    by (simp add: collect_map_Inr)
next
  show "\<forall>(l::CT_Lvl) (leaf::CT_pt) a. pt_lst l \<noteq> [] \<longrightarrow>
              scan_parent (level_entry (pt_lst l ! 0)) (CategoryLevel_iter (CategoryLevel l))
                  (Category (Some leaf) a) =
                Inr (level_entry (predecessor_scan (idx leaf) (pt_lst l)))"
  proof (intro allI impI)
    fix l :: CT_Lvl and leaf :: CT_pt and a :: "nat option"
    assume ne: "pt_lst l \<noteq> []"
    have iter: "CategoryLevel_iter (CategoryLevel l) = map level_entry (pt_lst l)"
      by (simp add: CategoryLevel_iter_def level_entry_def)
    show "scan_parent (level_entry (pt_lst l ! 0)) (CategoryLevel_iter (CategoryLevel l))
                  (Category (Some leaf) a) =
                Inr (level_entry (predecessor_scan (idx leaf) (pt_lst l)))"
      unfolding iter by (rule scan_parent_level [OF ne])
  qed
qed

theorem flattened_parent_is_predecessor_witness:
  "flattened_labels (chart_of (Some [leaf_lvl, parent_lvl])) =
     Inr [[''A'', ''w''], [''A'', ''x''], [''B'', ''y''], [''B'', ''z'']]
   \<and> flattened_labels (chart_of (Some [leaf_lvl, late_lvl, parent_lvl])) =
     Inr [[''A'', ''P'', ''w''], [''A'', ''P'', ''x''], [''B'', ''P'', ''y''],
          [''B'', ''Q'', ''z'']]"
proof -
  have 1: "iter_flattened_categories (chart_of (Some [leaf_lvl, parent_lvl])) =
      Inr (map (\<lambda>leaf. level_entry leaf # ancestor_chain leaf [parent_lvl]) (pt_lst leaf_lvl))"
    using flattened_parent_is_predecessor [of "chart_of (Some [leaf_lvl, parent_lvl])"
        "\<lparr>multiLvlStrRef = Some [leaf_lvl, parent_lvl], str_cache = [''w'', ''x'', ''y'', ''z'']\<rparr>"
        leaf_lvl "[parent_lvl]"]
    by (simp add: chart_of_def)
  have 2: "iter_flattened_categories (chart_of (Some [leaf_lvl, late_lvl, parent_lvl])) =
      Inr (map (\<lambda>leaf. level_entry leaf # ancestor_chain leaf [late_lvl, parent_lvl])
            (pt_lst leaf_lvl))"
    using flattened_parent_is_predecessor [of "chart_of (Some [leaf_lvl, late_lvl, parent_lvl])"
        "\<lparr>multiLvlStrRef = Some [leaf_lvl, late_lvl, parent_lvl],
          str_cache = [''w'', ''x'', ''y'', ''z'']\<rparr>"
        leaf_lvl "[late_lvl, parent_lvl]"]
    by (simp add: chart_of_def)
  have c: "cat (chart_of r) = Some \<lparr>multiLvlStrRef = r, str_cache = [''w'', ''x'', ''y'', ''z'']\<rparr>"
    for r by (simp add: chart_of_def)
  show ?thesis
    unfolding flattened_labels_def c 1 2
    by (simp add: ancestor_chain_def predecessor_scan_def
        level_entry_def Category_label_def leaf_lvl_def parent_lvl_def late_lvl_def entry_def)
qed

text \<open>
  C7. When a higher level is present but has no entries, the chain built from the
  levels below it is returned as it stands: the result is no error, it is the result for
  those lower levels alone whatever levels follow the empty one, and it is shorter than
  the number of levels.
\<close>

theorem empty_level_truncates:
  assumes "pt_lst l = []" and "\<forall>x \<in> set pre. pt_lst x \<noteq> []"
  shows "parentage [Category (Some lp) a] (map CategoryLevel (pre @ l # post)) =
           parentage [Category (Some lp) a] (map CategoryLevel pre)
         \<and> (\<exists>chain. parentage [Category (Some lp) a] (map CategoryLevel (pre @ l # post)) = Inr chain
              \<and> length chain = 1 + length pre
              \<and> length chain < 1 + length (pre @ l # post))"
proof -
  have tw: "takeWhile (\<lambda>l. pt_lst l \<noteq> []) (pre @ l # post) = pre"
    using assms by (simp add: takeWhile_append2)
  have tw2: "takeWhile (\<lambda>l. pt_lst l \<noteq> []) pre = pre"
    using assms by simp
  have full: "parentage [Category (Some lp) a] (map CategoryLevel (pre @ l # post)) =
        Inr ([Category (Some lp) a] @ map (\<lambda>l. level_entry (predecessor_scan (idx lp) (pt_lst l))) pre)"
    by (simp only: parentage_chain ancestor_chain_def tw)
  have part: "parentage [Category (Some lp) a] (map CategoryLevel pre) =
        Inr ([Category (Some lp) a] @ map (\<lambda>l. level_entry (predecessor_scan (idx lp) (pt_lst l))) pre)"
    by (simp only: parentage_chain ancestor_chain_def tw2)
  show ?thesis
    unfolding full part by simp
qed

theorem empty_level_truncates_witness:
  "parentage [level_entry (entry 3 ''z'')] (map CategoryLevel [parent_lvl, empty_lvl, late_lvl]) =
     Inr [level_entry (entry 3 ''z''), level_entry (entry 2 ''B'')]"
proof -
  have e: "pt_lst empty_lvl = []" by (simp add: empty_lvl_def)
  have p: "\<forall>x \<in> set [parent_lvl]. pt_lst x \<noteq> []" by (simp add: parent_lvl_def)
  have "parentage [Category (Some (entry 3 ''z'')) None]
          (map CategoryLevel ([parent_lvl] @ empty_lvl # [late_lvl])) =
        parentage [Category (Some (entry 3 ''z'')) None] (map CategoryLevel [parent_lvl])"
    using empty_level_truncates [OF e p, of "entry 3 ''z''" None "[late_lvl]"] by blast
  then show ?thesis
    by (simp add: level_entry_def parent_lvl_def entry_def CategoryLevel_len_def
        CategoryLevel_getitem_def CategoryLevel_iter_def Category_idx_def)
qed

section \<open>Writing texts into a tree\<close>

lemma overwrite_cells_Nil2 [simp]: "overwrite_cells ws [] = []"
  by (cases ws) simp_all

lemma length_overwrite_cells [simp]: "length (overwrite_cells ws cells) = length cells"
  by (induction ws cells rule: overwrite_cells.induct) simp_all

lemma nth_overwrite_cells:
  "i < length cells \<Longrightarrow>
     overwrite_cells ws cells ! i = (if i < length ws then Some (ws ! i) else cells ! i)"
proof (induction ws cells arbitrary: i rule: overwrite_cells.induct)
  case (3 w ws c cells)
  then show ?case by (cases i) simp_all
qed simp_all

lemma overwrite_cells_append:
  "overwrite_cells ws (a @ b) = overwrite_cells ws a @ overwrite_cells (drop (length a) ws) b"
  by (induction ws a rule: overwrite_cells.induct) simp_all

lemma overwrite_cells_same_length:
  "length ws = length cells \<Longrightarrow> overwrite_cells ws cells = map Some ws"
  by (induction ws cells rule: overwrite_cells.induct) simp_all

lemma assign_rest:
  "snd (assign_elem tg ws e) = drop (length (iter_tag tg e)) ws"
  "snd (assign_forest tg ws es) = drop (length (concat (map (iter_tag tg) es))) ws"
proof (induction tg ws e and tg ws es rule: assign_elem_assign_forest.induct)
  case (1 tg ws g tx cs)
  then show ?case by (auto split: list.splits prod.splits)
next
  case (2 tg ws)
  show ?case by simp
next
  case (3 tg ws e es)
  then show ?case by (auto split: prod.splits simp: add.commute)
qed

lemma assign_cells:
  "map etext (iter_tag tg (fst (assign_elem tg ws e))) =
     overwrite_cells ws (map etext (iter_tag tg e))"
  "map etext (concat (map (iter_tag tg) (fst (assign_forest tg ws es)))) =
     overwrite_cells ws (map etext (concat (map (iter_tag tg) es)))"
proof (induction tg ws e and tg ws es rule: assign_elem_assign_forest.induct)
  case (1 tg ws g tx cs)
  then show ?case by (auto split: list.splits prod.splits)
next
  case (2 tg ws)
  show ?case by simp
next
  case (3 tg ws e es)
  obtain e' r where e: "assign_elem tg ws e = (e', r)" by force
  obtain es' r' where es: "assign_forest tg r es = (es', r')" by force
  have r: "r = drop (length (iter_tag tg e)) ws"
    using assign_rest(1)[of tg ws e] e by simp
  have 1: "map etext (iter_tag tg e') = overwrite_cells ws (map etext (iter_tag tg e))"
    using 3(1) e by simp
  have 2: "map etext (concat (map (iter_tag tg) es')) =
             overwrite_cells r (map etext (concat (map (iter_tag tg) es)))"
    using 3(2)[OF e[symmetric]] es by simp
  have whole: "assign_forest tg ws (e # es) = (e' # es', r')"
    by (simp add: e es)
  show ?case
    unfolding whole using 1 2 by (simp add: overwrite_cells_append r)
qed

lemma assign_idem:
  "assign_elem tg ws (fst (assign_elem tg ws e)) = assign_elem tg ws e"
  "assign_forest tg ws (fst (assign_forest tg ws es)) = assign_forest tg ws es"
proof (induction tg ws e and tg ws es rule: assign_elem_assign_forest.induct)
  case (1 tg ws g tx cs)
  then show ?case by (auto split: list.splits prod.splits)
next
  case (2 tg ws)
  show ?case by simp
next
  case (3 tg ws e es)
  obtain e' r where e: "assign_elem tg ws e = (e', r)" by force
  obtain es' r' where es: "assign_forest tg r es = (es', r')" by force
  have 1: "assign_elem tg ws e' = (e', r)" using 3(1) e by simp
  have 2: "assign_forest tg r es' = (es', r')" using 3(2)[OF e[symmetric]] es by simp
  show ?case by (simp add: e es 1 2)
qed

lemma text_cells_assign_texts:
  "text_cells (assign_texts a_t ws root) = overwrite_cells ws (text_cells root)"
  by (simp add: text_cells_def assign_texts_def findall_def assign_cells(2))

lemma assign_texts_idem:
  "assign_texts tg ws (assign_texts tg ws root) = assign_texts tg ws root"
  by (simp add: assign_texts_def assign_idem(2))

lemma join_texts_cells:
  "join_texts (findall a_t e) =
     concat (map (\<lambda>tx. case tx of None \<Rightarrow> [] | Some s \<Rightarrow> s) (filter truthy_text (text_cells e)))"
  by (simp add: join_texts_def text_cells_def filter_map comp_def)

section \<open>Point text\<close>

lemma set_text_cells:
  assumes "t pt = Some te" and "findall a_t te \<noteq> []"
  shows "\<exists>te'. t (CT_DiagramPoint_set_text pt v) = Some te'
           \<and> text_cells te' = Some v # replicate (length (findall a_t te) - 1) (Some '''')"
proof -
  obtain el0 els where f: "findall a_t te = el0 # els"
    using assms(2) by (cases "findall a_t te") simp_all
  let ?ws = "v # map (\<lambda>_. '''') els"
  have len: "length ?ws = length (text_cells te)"
    by (simp add: text_cells_def f)
  have s: "CT_DiagramPoint_set_text pt v = pt\<lparr>t := Some (assign_texts a_t ?ws te)\<rparr>"
    by (simp add: CT_DiagramPoint_set_text_def assms(1) f)
  have "text_cells (assign_texts a_t ?ws te) = map Some ?ws"
    by (simp only: text_cells_assign_texts overwrite_cells_same_length [OF len])
  also have "\<dots> = Some v # replicate (length (findall a_t te) - 1) (Some '''')"
    by (simp add: f map_replicate_const)
  finally show ?thesis by (simp add: s)
qed

text \<open>
  C4, amended. For a point whose text container holds \<open>n \<ge> 1\<close> runs, setting the text
  to \<open>v\<close> leaves \<open>v\<close> in the first run and the empty string in runs 2 to \<open>n\<close>; no run
  but the first is populated, and the first is exactly when \<open>v\<close> is not empty; reading
  the text afterwards returns \<open>v\<close>.
\<close>

theorem set_text_then_text:
  assumes "t pt = Some te" and "findall a_t te \<noteq> []"
  shows "\<exists>te'. t (CT_DiagramPoint_set_text pt v) = Some te'
           \<and> text_cells te' = Some v # replicate (length (findall a_t te) - 1) (Some [])
           \<and> length (filter truthy_text (text_cells te')) = (if v = [] then 0 else 1)
           \<and> CT_DiagramPoint_text (CT_DiagramPoint_set_text pt v) = v"
proof -
  obtain te' where te': "t (CT_DiagramPoint_set_text pt v) = Some te'"
    and cells: "text_cells te' = Some v # replicate (length (findall a_t te) - 1) (Some [])"
    using set_text_cells [OF assms] by blast
  have none: "filter truthy_text (replicate k (Some [])) = []" for k
    by (induction k) (simp_all add: truthy_text_def)
  have pop: "filter truthy_text (text_cells te') = (if v = [] then [] else [Some v])"
    by (simp add: cells none truthy_text_def)
  have "CT_DiagramPoint_text (CT_DiagramPoint_set_text pt v) = v"
    by (simp add: CT_DiagramPoint_text_def te' join_texts_cells pop)
  then show ?thesis
    using te' cells pop by simp
qed

theorem set_text_then_text_witness:
  "text_cells (container_of [''Hello '', ''World'', ''!'']) =
     [Some ''Hello '', Some ''World'', Some ''!'']
   \<and> t (CT_DiagramPoint_set_text (point_of None [''Hello '', ''World'', ''!'']) ''X'') =
       Some (container_of [''X'', [], []])
   \<and> CT_DiagramPoint_text
       (CT_DiagramPoint_set_text (point_of None [''Hello '', ''World'', ''!'']) ''X'') = ''X''"
proof -
  have c: "t (point_of None [''Hello '', ''World'', ''!'']) =
             Some (container_of [''Hello '', ''World'', ''!''])"
    by (simp add: point_of_def)
  have f: "findall a_t (container_of [''Hello '', ''World'', ''!'']) \<noteq> []"
    by (simp add: findall_def container_of_def run_of_def a_t_def)
  have "CT_DiagramPoint_text
       (CT_DiagramPoint_set_text (point_of None [''Hello '', ''World'', ''!'']) ''X'') = ''X''"
    using set_text_then_text [OF c f, of "''X''"] by blast
  moreover have "text_cells (container_of [''Hello '', ''World'', ''!'']) =
     [Some ''Hello '', Some ''World'', Some ''!'']"
    by (simp add: text_cells_def findall_def container_of_def run_of_def a_t_def)
  moreover have "t (CT_DiagramPoint_set_text (point_of None [''Hello '', ''World'', ''!'']) ''X'') =
       Some (container_of [''X'', [], []])"
    by (simp add: CT_DiagramPoint_set_text_def point_of_def findall_def container_of_def
        run_of_def a_t_def assign_texts_def)
  ultimately show ?thesis by simp
qed

text \<open>
  With \<open>exactly one populated run\<close> for every value the statement fails: the empty
  string, written to a point with one run, leaves that run empty, so that no run is
  populated.
\<close>

theorem set_text_empty_counterexample:
  "length (findall a_t (container_of [''Old''])) = 1
   \<and> t (CT_DiagramPoint_set_text (point_of None [''Old'']) []) = Some (container_of [[]])
   \<and> length (filter truthy_text (text_cells (container_of [[]]))) = 0"
  by (simp add: CT_DiagramPoint_set_text_def point_of_def findall_def container_of_def
      run_of_def a_t_def assign_texts_def text_cells_def truthy_text_def)

text \<open>
  C8. Setting the text of a point without a text container changes nothing: the point is
  returned as it was, with no container, and its text reads as the empty string. Through
  a node the write never fails and leaves the whole data model as it was.
\<close>

theorem set_text_without_container:
  assumes "t pt = None"
  shows "CT_DiagramPoint_set_text pt v = pt
         \<and> CT_DiagramPoint_text pt = []
         \<and> (\<forall>sa nd st. pt_pos nd < length (ptLst sa) \<and> ptLst sa ! pt_pos nd = pt \<longrightarrow>
               SmartArtNode_text sa nd = Some []
               \<and> (\<exists>st'. SmartArtNode_set_text nd v (sa, st) = Some (sa, st')))"
proof -
  have same: "CT_DiagramPoint_set_text pt v = pt"
    using assms by (simp add: CT_DiagramPoint_set_text_def)
  have empty: "CT_DiagramPoint_text pt = []"
    using assms by (simp add: CT_DiagramPoint_text_def)
  have node: "SmartArtNode_text sa nd = Some []
               \<and> (\<exists>st'. SmartArtNode_set_text nd v (sa, st) = Some (sa, st'))"
    if "pt_pos nd < length (ptLst sa) \<and> ptLst sa ! pt_pos nd = pt" for sa nd st
  proof -
    have "(ptLst sa)[pt_pos nd := CT_DiagramPoint_set_text (ptLst sa ! pt_pos nd) v] = ptLst sa"
      using that same by (metis list_update_id)
    then show ?thesis
      using that empty by (simp add: SmartArtNode_set_text_def SmartArtNode_text_def Let_def)
  qed
  show ?thesis using same empty node by blast
qed

theorem set_text_without_container_witness:
  "CT_DiagramPoint_set_text (bare_point (Some ''pres'')) ''X'' = bare_point (Some ''pres'')
   \<and> CT_DiagramPoint_text (bare_point (Some ''pres'')) = []
   \<and> (\<exists>st'. SmartArtNode_set_text (sample_node 1) ''X'' (sample_SmartArt, sample_store) =
              Some (sample_SmartArt, st'))"
proof -
  have n: "t (bare_point (Some ''pres'')) = None" by (simp add: bare_point_def)
  have p: "pt_pos (sample_node 1) < length (ptLst sample_SmartArt)
           \<and> ptLst sample_SmartArt ! pt_pos (sample_node 1) = bare_point (Some ''pres'')"
    by (simp add: sample_node_def sample_SmartArt_def)
  show ?thesis
    using set_text_without_container [OF n, of "''X''"] p by blast
qed

section \<open>Synchronising the drawing parts\<close>

lemma iter_text_of_filter:
  "iter_text_of pts = filter (\<lambda>s. s \<noteq> []) (map CT_DiagramPoint_text pts)"
  by (induction pts) (simp_all add: Let_def)

lemma update_all_text_elements_idem:
  "update_all_text_elements (update_all_text_elements root texts) texts =
     update_all_text_elements root texts"
  by (simp add: update_all_text_elements_def assign_texts_idem)

lemma update_drawing_parts_at:
  "update_drawing_parts rs texts st k =
     (if k \<in> target_part ` set rs then
        (case st k of
           DiagramDrawingPart root \<Rightarrow> DiagramDrawingPart (update_all_text_elements root texts)
         | OtherPart \<Rightarrow> OtherPart)
      else st k)"
proof (induction rs arbitrary: st)
  case Nil
  show ?case by simp
next
  case (Cons r rs)
  show ?case
  proof (cases "st (target_part r)")
    case (DiagramDrawingPart root)
    then show ?thesis
      by (simp add: Cons.IH update_all_text_elements_idem)
  next
    case OtherPart
    then show ?thesis
      by (auto simp: Cons.IH)
  qed
qed

lemma sync_drawing_part_eq:
  assumes "first_with_part (parents sa) = Some sp"
  shows "sync_drawing_part sa st =
           update_drawing_parts (drawing_rels_of sp) (SmartArt_text_content sa) st"
  using assms by (simp add: sync_drawing_part_def Let_def)

text \<open>
  C10. The sequence that \<open>iter_text\<close> yields, and that synchronisation hands to the
  drawing parts, is the texts of the nodes of the collection without the empty ones: a
  node whose text is empty contributes no element, so the cells after it are filled from
  the nodes that follow.
\<close>

theorem text_content_skips_empty:
  "SmartArt_text_content sa =
     filter (\<lambda>s. s \<noteq> []) (map CT_DiagramPoint_text (SmartArtNodes_iter (ptLst sa)))
   \<and> [] \<notin> set (SmartArt_text_content sa)
   \<and> (\<forall>sp. first_with_part (parents sa) = Some sp \<longrightarrow>
         sync_drawing_part sa st =
           update_drawing_parts (drawing_rels_of sp)
             (filter (\<lambda>s. s \<noteq> []) (map CT_DiagramPoint_text (SmartArtNodes_iter (ptLst sa)))) st)"
proof -
  have tc: "SmartArt_text_content sa =
     filter (\<lambda>s. s \<noteq> []) (map CT_DiagramPoint_text (SmartArtNodes_iter (ptLst sa)))"
    by (simp add: SmartArt_text_content_def iter_text_of_filter)
  have ne: "[] \<notin> set (SmartArt_text_content sa)"
    by (simp add: tc)
  show ?thesis
    using tc ne sync_drawing_part_eq [of sa _ st] by metis
qed

theorem text_content_skips_empty_witness:
  "map CT_DiagramPoint_text
     (SmartArtNodes_iter [point_of None [[]], bare_point (Some ''sibTrans''), point_of None [''B'']])
     = [[], ''B'']
   \<and> SmartArt_text_content
       \<lparr>ptLst = [point_of None [[]], bare_point (Some ''sibTrans''), point_of None [''B'']],
        parents = [Proxy True (Some sample_slide_part)]\<rparr> = [''B'']
   \<and> sync_drawing_part
       \<lparr>ptLst = [point_of None [[]], bare_point (Some ''sibTrans''), point_of None [''B'']],
        parents = [Proxy True (Some sample_slide_part)]\<rparr> sample_store 0
     = DiagramDrawingPart (drawing_of [''B'', ''b'', ''c''])"
proof -
  let ?sa = "\<lparr>ptLst = [point_of None [[]], bare_point (Some ''sibTrans''), point_of None [''B'']],
        parents = [Proxy True (Some sample_slide_part)]\<rparr>"
  have texts: "map CT_DiagramPoint_text
     (SmartArtNodes_iter [point_of None [[]], bare_point (Some ''sibTrans''), point_of None [''B'']])
     = [[], ''B'']"
    by (simp add: skipped_types_def bare_point_def point_of_def CT_DiagramPoint_text_def
        join_texts_def findall_def container_of_def run_of_def a_t_def truthy_text_def)
  have fp: "first_with_part (parents ?sa) = Some sample_slide_part" by simp
  have rels: "drawing_rels_of sample_slide_part =
                [\<lparr>reltype = RT_DIAGRAM_DRAWING, target_part = 0\<rparr>]"
    by (simp add: drawing_rels_of_def sample_slide_part_def RT_DIAGRAM_DRAWING_def)
  have upd: "update_all_text_elements (drawing_of [''a'', ''b'', ''c'']) [''B''] =
               drawing_of [''B'', ''b'', ''c'']"
    by (simp add: update_all_text_elements_def assign_texts_def drawing_of_def a_t_def)
  have tc: "SmartArt_text_content ?sa = [''B'']"
    using text_content_skips_empty [of ?sa sample_store] texts by simp
  have "sync_drawing_part ?sa sample_store =
          update_drawing_parts (drawing_rels_of sample_slide_part) [''B''] sample_store"
    using text_content_skips_empty [of ?sa sample_store] fp texts by simp
  then have "sync_drawing_part ?sa sample_store 0 = DiagramDrawingPart (drawing_of [''B'', ''b'', ''c''])"
    by (simp add: rels sample_store_def upd)
  then show ?thesis using texts tc by simp
qed

text \<open>
  C1, amended. After a text write through a node that has a data part and a \<open>SmartArt\<close>
  above it, every drawing part reached from the owning part by a relationship of the
  diagram-drawing type has its ordered text cells overwritten positionally with the
  current \<open>text_content\<close>, the ordered sequence of the non-empty texts of the non-metadata
  nodes: cell \<open>i\<close> holds element \<open>i\<close> for every index present in both, the cells beyond
  the sequence are as they were, and the number of cells is unchanged, so elements beyond
  the cells are dropped.
\<close>

theorem node_write_syncs_drawing:
  assumes "SmartArtNode_set_text nd v (sa, st) = Some (sa', st')"
    and "has_data_part nd" and "under_SmartArt nd"
    and "first_with_part (parents sa) = Some sp"
    and "r \<in> set (rels sp)" and "reltype r = RT_DIAGRAM_DRAWING"
    and "st (target_part r) = DiagramDrawingPart root"
  shows "\<exists>root'. st' (target_part r) = DiagramDrawingPart root'
           \<and> text_cells root' = overwrite_cells (SmartArt_text_content sa') (text_cells root)
           \<and> length (text_cells root') = length (text_cells root)
           \<and> (\<forall>i < length (text_cells root).
                 text_cells root' ! i =
                   (if i < length (SmartArt_text_content sa')
                    then Some (SmartArt_text_content sa' ! i) else text_cells root ! i))
           \<and> SmartArt_text_content sa' =
               filter (\<lambda>s. s \<noteq> []) (map CT_DiagramPoint_text (SmartArtNodes_iter (ptLst sa')))"
proof -
  let ?texts = "SmartArt_text_content sa'"
  let ?root' = "update_all_text_elements root ?texts"
  have pos: "pt_pos nd < length (ptLst sa)"
    using assms(1) by (simp add: SmartArtNode_set_text_def split: if_splits)
  have sa': "sa' = sa\<lparr>ptLst := (ptLst sa)[pt_pos nd :=
                 CT_DiagramPoint_set_text (ptLst sa ! pt_pos nd) v]\<rparr>"
    using assms(1,2,3) pos by (simp add: SmartArtNode_set_text_def Let_def)
  have st': "st' = sync_drawing_part sa' st"
    using assms(1,2,3) pos by (simp add: SmartArtNode_set_text_def Let_def sa')
  have fp: "first_with_part (parents sa') = Some sp"
    using assms(4) by (simp add: sa')
  have mem: "target_part r \<in> target_part ` set (drawing_rels_of sp)"
    using assms(5,6) by (simp add: drawing_rels_of_def)
  have at: "st' (target_part r) = DiagramDrawingPart ?root'"
    unfolding st' sync_drawing_part_eq [OF fp]
    by (simp add: update_drawing_parts_at mem assms(7))
  have cells: "text_cells ?root' = overwrite_cells ?texts (text_cells root)"
    by (simp add: update_all_text_elements_def text_cells_assign_texts)
  have tc: "?texts =
      filter (\<lambda>s. s \<noteq> []) (map CT_DiagramPoint_text (SmartArtNodes_iter (ptLst sa')))"
    by (simp add: SmartArt_text_content_def iter_text_of_filter)
  have nth: "\<forall>i < length (text_cells root).
                 text_cells ?root' ! i =
                   (if i < length ?texts then Some (?texts ! i) else text_cells root ! i)"
    by (simp add: cells nth_overwrite_cells)
  have len: "length (text_cells ?root') = length (text_cells root)"
    by (simp add: cells)
  show ?thesis
    using at cells len nth tc by blast
qed

theorem node_write_syncs_drawing_witness:
  "\<exists>sa' st'. SmartArtNode_set_text (sample_node 2) ''New'' (sample_SmartArt, sample_store) =
       Some (sa', st')
     \<and> SmartArt_text_content sa' = [''A'', ''New'']
     \<and> (\<exists>root'. st' 0 = DiagramDrawingPart root'
           \<and> text_cells root' = [Some ''A'', Some ''New'', Some ''c''])"
proof -
  obtain sa' st' where w: "SmartArtNode_set_text (sample_node 2) ''New''
      (sample_SmartArt, sample_store) = Some (sa', st')"
    by (simp add: SmartArtNode_set_text_def sample_node_def sample_SmartArt_def Let_def)
  have pl: "ptLst sa' = [point_of None [''A''], bare_point (Some ''pres''),
                          point_of (Some ''node'') [''New'']]"
    using w
    by (auto simp: SmartArtNode_set_text_def sample_node_def sample_SmartArt_def Let_def
        CT_DiagramPoint_set_text_def point_of_def findall_def container_of_def run_of_def
        a_t_def assign_texts_def)
  have tc: "SmartArt_text_content sa' = [''A'', ''New'']"
    by (simp add: SmartArt_text_content_def pl skipped_types_def bare_point_def point_of_def
        CT_DiagramPoint_text_def join_texts_def findall_def container_of_def run_of_def a_t_def
        truthy_text_def)
  have h: "has_data_part (sample_node 2)" "under_SmartArt (sample_node 2)"
    by (simp_all add: sample_node_def)
  have fp: "first_with_part (parents sample_SmartArt) = Some sample_slide_part"
    by (simp add: sample_SmartArt_def)
  have r: "\<lparr>reltype = RT_DIAGRAM_DRAWING, target_part = 0\<rparr> \<in> set (rels sample_slide_part)"
    by (simp add: sample_slide_part_def)
  have s0: "sample_store (target_part \<lparr>reltype = RT_DIAGRAM_DRAWING, target_part = 0\<rparr>) =
              DiagramDrawingPart (drawing_of [''a'', ''b'', ''c''])"
    by (simp add: sample_store_def)
  have cells0: "text_cells (drawing_of [''a'', ''b'', ''c'']) = [Some ''a'', Some ''b'', Some ''c'']"
    by (simp add: text_cells_def findall_def drawing_of_def a_t_def)
  obtain root' where "st' 0 = DiagramDrawingPart root'"
    and "text_cells root' = overwrite_cells (SmartArt_text_content sa')
            (text_cells (drawing_of [''a'', ''b'', ''c'']))"
    using node_write_syncs_drawing [OF w h fp r _ s0] by auto
  then have "st' 0 = DiagramDrawingPart root'
      \<and> text_cells root' = [Some ''A'', Some ''New'', Some ''c'']"
    by (simp add: tc cells0)
  then show ?thesis using w tc by blast
qed

text \<open>
  With the texts of all non-metadata nodes as the sequence the statement fails when a
  node's text is empty. After the first node of the sample is set to the empty string,
  the texts of the non-metadata nodes are \<open>""\<close> and \<open>"B"\<close>, yet the drawing's first
  cell holds \<open>"B"\<close> and its second cell is untouched.
\<close>

theorem node_write_empty_counterexample:
  "SmartArtNode_set_text (sample_node 0) [] (sample_SmartArt, sample_store) =
     Some (sample_SmartArt\<lparr>ptLst :=
             [point_of None [[]], bare_point (Some ''pres''), point_of (Some ''node'') [''B'']]\<rparr>,
           sample_store(0 := DiagramDrawingPart (drawing_of [''B'', ''b'', ''c''])))
   \<and> map CT_DiagramPoint_text
       (SmartArtNodes_iter
          [point_of None [[]], bare_point (Some ''pres''), point_of (Some ''node'') [''B'']])
       = [[], ''B'']
   \<and> text_cells (drawing_of [''B'', ''b'', ''c'']) \<noteq>
       overwrite_cells [[], ''B''] (text_cells (drawing_of [''a'', ''b'', ''c'']))"
proof -
  define pts where "pts =
    [point_of None [[]], bare_point (Some ''pres''), point_of (Some ''node'') [''B'']]"
  have rels: "drawing_rels_of sample_slide_part =
                [\<lparr>reltype = RT_DIAGRAM_DRAWING, target_part = 0\<rparr>]"
    by (simp add: drawing_rels_of_def sample_slide_part_def RT_DIAGRAM_DRAWING_def)
  have s: "CT_DiagramPoint_set_text (point_of None [''A'']) [] = point_of None [[]]"
    by (simp add: CT_DiagramPoint_set_text_def point_of_def findall_def container_of_def
        run_of_def a_t_def assign_texts_def)
  have pl: "(ptLst sample_SmartArt)[pt_pos (sample_node 0) :=
              CT_DiagramPoint_set_text (ptLst sample_SmartArt ! pt_pos (sample_node 0)) []] = pts"
    by (simp add: sample_SmartArt_def sample_node_def s pts_def)
  have texts: "map CT_DiagramPoint_text (SmartArtNodes_iter pts) = [[], ''B'']"
    by (simp add: pts_def skipped_types_def bare_point_def point_of_def CT_DiagramPoint_text_def
        join_texts_def findall_def container_of_def run_of_def a_t_def truthy_text_def)
  have tc: "iter_text_of (SmartArtNodes_iter pts) = [''B'']"
    using texts by (simp add: iter_text_of_filter)
  have upd: "update_all_text_elements (drawing_of [''a'', ''b'', ''c'']) [''B''] =
               drawing_of [''B'', ''b'', ''c'']"
    by (simp add: update_all_text_elements_def assign_texts_def drawing_of_def a_t_def)
  have len: "\<not> length (ptLst sample_SmartArt) \<le> pt_pos (sample_node 0)"
    by (simp add: sample_SmartArt_def sample_node_def)
  have h: "has_data_part (sample_node 0)" "under_SmartArt (sample_node 0)"
    by (simp_all add: sample_node_def)
  have run: "SmartArtNode_set_text (sample_node 0) [] (sample_SmartArt, sample_store) =
      Some (sample_SmartArt\<lparr>ptLst := pts\<rparr>,
            sync_drawing_part (sample_SmartArt\<lparr>ptLst := pts\<rparr>) sample_store)"
    using len by (simp add: SmartArtNode_set_text_def Let_def pl h)
  have sync: "sync_drawing_part (sample_SmartArt\<lparr>ptLst := pts\<rparr>) sample_store =
      sample_store(0 := DiagramDrawingPart (drawing_of [''B'', ''b'', ''c'']))"
    by (simp add: sync_drawing_part_def sample_SmartArt_def rels SmartArt_text_content_def tc
        sample_store_def upd)
  have 1: "SmartArtNode_set_text (sample_node 0) [] (sample_SmartArt, sample_store) =
     Some (sample_SmartArt\<lparr>ptLst := pts\<rparr>,
           sample_store(0 := DiagramDrawingPart (drawing_of [''B'', ''b'', ''c''])))"
    by (simp add: run sync)
  have 2: "text_cells (drawing_of [''B'', ''b'', ''c'']) \<noteq>
       overwrite_cells [[], ''B''] (text_cells (drawing_of [''a'', ''b'', ''c'']))"
    by (simp add: text_cells_def findall_def drawing_of_def a_t_def)
  show ?thesis using 1 2 texts unfolding pts_def by simp
qed

end
